theory Spec2Isabelle
  imports Main
begin

section \<open>Strings\<close>

text \<open>
  JavaScript strings are modelled as \<^typ>\<open>string\<close>: a list of characters of the
  Latin-1 range (code units 0 to 255).  Of the white space and line terminators that
  \<^verbatim>\<open>String.prototype.trim\<close> and the regular expression class \<^verbatim>\<open>\s\<close> recognise,
  the ones of this range are TAB, LF, VT, FF, CR, SPACE and NBSP.
\<close>

definition isWhiteSpace :: "char \<Rightarrow> bool" where
  "isWhiteSpace c \<longleftrightarrow>
     c \<in> set [CHR 0x09, CHR 0x0A, CHR 0x0B, CHR 0x0C, CHR 0x0D, CHR '' '', CHR 0xA0]"

definition trim :: "string \<Rightarrow> string" where
  "trim s = rev (dropWhile isWhiteSpace (rev (dropWhile isWhiteSpace s)))"

text \<open>
  A value read from a JSON object or from an optional property is \<open>None\<close> when the
  property is absent (\<^verbatim>\<open>undefined\<close> or \<^verbatim>\<open>null\<close>) and \<open>Some s\<close> when it is the string
  \<open>s\<close>.  Such a value is truthy when it is a non-empty string.
\<close>

fun truthy :: "string option \<Rightarrow> bool" where
  "truthy None = False"
| "truthy (Some s) = (s \<noteq> [])"

text \<open>\<^verbatim>\<open>v || ''\<close> on an optional string.\<close>

fun orEmpty :: "string option \<Rightarrow> string" where
  "orEmpty None = []"
| "orEmpty (Some s) = s"

text \<open>\<^verbatim>\<open>Array.prototype.join\<close> on an array of strings.\<close>

fun join :: "string \<Rightarrow> string list \<Rightarrow> string" where
  "join sep [] = []"
| "join sep [x] = x"
| "join sep (x # y # ys) = x @ sep @ join sep (y # ys)"

section \<open>Data model\<close>

text \<open>
  \<^verbatim>\<open>interface PatientData\<close> of the patient form: every property is a string and
  \<^verbatim>\<open>formattedTranscript\<close> is optional.  The property \<^verbatim>\<open>id\<close> is named \<open>id_p\<close> here.
\<close>

record PatientData =
  id_p :: string
  patientName :: string
  age :: string
  gender :: string
  symptoms :: string
  medicalHistory :: string
  diagnosis :: string
  treatmentPlan :: string
  transcript :: string
  formattedTranscript :: "string option"
  createdAt :: string
  bloodPressure :: string
  heartRate :: string
  temperature :: string
  respiratoryRate :: string
  oxygenSaturation :: string
  weight :: string
  height :: string

text \<open>
  The payload \<^verbatim>\<open>data.data\<close> of the \<^verbatim>\<open>analyze-transcript\<close> function
  (\<^verbatim>\<open>extractedInfo\<close>): the same properties without identifier, creation time and raw
  transcript, each of them optional.  The field names carry the suffix \<open>_x\<close>.
\<close>

record ExtractedInfo =
  patientName_x :: "string option"
  age_x :: "string option"
  gender_x :: "string option"
  symptoms_x :: "string option"
  medicalHistory_x :: "string option"
  diagnosis_x :: "string option"
  treatmentPlan_x :: "string option"
  formattedTranscript_x :: "string option"
  bloodPressure_x :: "string option"
  heartRate_x :: "string option"
  temperature_x :: "string option"
  respiratoryRate_x :: "string option"
  oxygenSaturation_x :: "string option"
  weight_x :: "string option"
  height_x :: "string option"

text \<open>\<^verbatim>\<open>interface ParsedPatientInfo\<close> of the heuristic parser (suffix \<open>_h\<close>).\<close>

record ParsedPatientInfo =
  patientName_h :: "string option"
  age_h :: "string option"
  gender_h :: "string option"
  symptoms_h :: "string option"
  medicalHistory_h :: "string option"
  diagnosis_h :: "string option"
  treatmentPlan_h :: "string option"

section \<open>Merging an extraction result into the current patient\<close>

text \<open>
  The helper of \<^verbatim>\<open>handleRecordingComplete\<close>:
  \<^verbatim>\<open>if (newVal && newVal !== 'N/A') return newVal; return currentVal;\<close>
\<close>

fun mergeValue :: "string \<Rightarrow> string option \<Rightarrow> string" where
  "mergeValue currentVal None = currentVal"
| "mergeValue currentVal (Some newVal) =
     (if newVal \<noteq> [] \<and> newVal \<noteq> ''N/A'' then newVal else currentVal)"

text \<open>
  The record \<^verbatim>\<open>updatedPatient\<close> that \<^verbatim>\<open>handleRecordingComplete\<close> builds from the
  current patient, the final transcript and the extraction result, in the order of
  the assignments of the source.
\<close>

definition updatedPatient :: "PatientData \<Rightarrow> string \<Rightarrow> ExtractedInfo \<Rightarrow> PatientData" where
  "updatedPatient currentPatient finalTranscript extractedInfo =
     currentPatient
       \<lparr> transcript := finalTranscript,
         formattedTranscript :=
           Some (orEmpty (formattedTranscript_x extractedInfo)),
         patientName := mergeValue (patientName currentPatient) (patientName_x extractedInfo),
         age := mergeValue (age currentPatient) (age_x extractedInfo),
         gender := mergeValue (gender currentPatient) (gender_x extractedInfo),
         symptoms := mergeValue (symptoms currentPatient) (symptoms_x extractedInfo),
         medicalHistory :=
           mergeValue (medicalHistory currentPatient) (medicalHistory_x extractedInfo),
         diagnosis := mergeValue (diagnosis currentPatient) (diagnosis_x extractedInfo),
         treatmentPlan :=
           mergeValue (treatmentPlan currentPatient) (treatmentPlan_x extractedInfo),
         bloodPressure :=
           mergeValue (bloodPressure currentPatient) (bloodPressure_x extractedInfo),
         heartRate := mergeValue (heartRate currentPatient) (heartRate_x extractedInfo),
         temperature := mergeValue (temperature currentPatient) (temperature_x extractedInfo),
         respiratoryRate :=
           mergeValue (respiratoryRate currentPatient) (respiratoryRate_x extractedInfo),
         oxygenSaturation :=
           mergeValue (oxygenSaturation currentPatient) (oxygenSaturation_x extractedInfo),
         weight := mergeValue (weight currentPatient) (weight_x extractedInfo),
         height := mergeValue (height currentPatient) (height_x extractedInfo) \<rparr>"

section \<open>Merging a heuristic parse result\<close>

text \<open>
  \<^verbatim>\<open>existing.f || parsed.f || existing.f\<close>: the existing value when it is non-empty,
  else the parsed value when it is a non-empty string, else the existing value.
\<close>

fun fillEmpty :: "string \<Rightarrow> string option \<Rightarrow> string" where
  "fillEmpty existing None = existing"
| "fillEmpty existing (Some parsed) =
     (if existing \<noteq> [] then existing
      else if parsed \<noteq> [] then parsed
      else existing)"

definition mergePatientData :: "PatientData \<Rightarrow> ParsedPatientInfo \<Rightarrow> PatientData" where
  "mergePatientData existing parsed =
     existing
       \<lparr> patientName := fillEmpty (patientName existing) (patientName_h parsed),
         age := fillEmpty (age existing) (age_h parsed),
         gender := fillEmpty (gender existing) (gender_h parsed),
         symptoms := fillEmpty (symptoms existing) (symptoms_h parsed),
         medicalHistory := fillEmpty (medicalHistory existing) (medicalHistory_h parsed),
         diagnosis := fillEmpty (diagnosis existing) (diagnosis_h parsed),
         treatmentPlan := fillEmpty (treatmentPlan existing) (treatmentPlan_h parsed) \<rparr>"

section \<open>The page: recording completion and saving\<close>

text \<open>
  A notice shown by \<^verbatim>\<open>toast\<close>; \<open>destructive\<close> is \<^verbatim>\<open>variant: "destructive"\<close>.
\<close>

record toast =
  title :: string
  description :: string
  destructive :: bool

text \<open>
  The record store is an external service.  The model keeps the requests that the
  page sends to the table \<^verbatim>\<open>patients\<close>, in order, and takes the replies as
  arguments.  An update or insert carries the object literal of the source as a list
  of column and value.
\<close>

datatype store_call =
    Select
  | Update string "(string \<times> string) list"
  | Insert "(string \<times> string) list"

text \<open>A row of the table as \<^verbatim>\<open>loadPatients\<close> reads it; nullable columns are optional.\<close>

record patient_row =
  col_id :: string
  col_patient_name :: string
  col_age :: "string option"
  col_gender :: "string option"
  col_symptoms :: "string option"
  col_medical_history :: "string option"
  col_diagnosis :: "string option"
  col_treatment_plan :: "string option"
  col_transcript :: "string option"
  col_formatted_transcript :: "string option"
  col_created_at :: string
  col_blood_pressure :: "string option"
  col_heart_rate :: "string option"
  col_temperature :: "string option"
  col_respiratory_rate :: "string option"
  col_oxygen_saturation :: "string option"
  col_weight :: "string option"
  col_height :: "string option"

text \<open>
  The reply to \<^verbatim>\<open>select('*').order('created_at', { ascending: false })\<close>: an error,
  a rejected promise, or the rows (\<^verbatim>\<open>data\<close> may be null).
\<close>

datatype select_reply =
    Select_error
  | Select_threw
  | Select_data "patient_row list option"

text \<open>
  The reply to \<^verbatim>\<open>supabase.functions.invoke('analyze-transcript', ...)\<close>: an error, a
  rejected promise, or a body \<^verbatim>\<open>{ success, data }\<close> (which may be null).
\<close>

record analyze_body =
  success :: bool
  data :: "ExtractedInfo option"

datatype invoke_reply =
    Invoke_error
  | Invoke_threw
  | Invoke_body "analyze_body option"

text \<open>The state of the component \<^verbatim>\<open>Index\<close> that the modelled handlers read or write.\<close>

record Index =
  currentTranscript :: string
  savedNotes :: "PatientData list"
  currentPatient :: PatientData
  activeTab :: string
  toasts :: "toast list"
  storeCalls :: "store_call list"

definition showToast :: "toast \<Rightarrow> Index \<Rightarrow> Index" where
  "showToast t st = st\<lparr>toasts := toasts st @ [t]\<rparr>"

text \<open>
  The extraction result that \<^verbatim>\<open>handleRecordingComplete\<close> proceeds with: there is one
  when no error came back and \<^verbatim>\<open>data?.success && data?.data\<close> holds; in every other case
  the handler throws into its \<^verbatim>\<open>catch\<close> branch.
\<close>

fun extractedOf :: "invoke_reply \<Rightarrow> ExtractedInfo option" where
  "extractedOf Invoke_error = None"
| "extractedOf Invoke_threw = None"
| "extractedOf (Invoke_body None) = None"
| "extractedOf (Invoke_body (Some body)) = (if success body then data body else None)"

text \<open>\<^verbatim>\<open>if (v && v !== 'N/A') filledFields.push(label)\<close>\<close>

definition pushIfFilled :: "string option \<Rightarrow> string \<Rightarrow> string list \<Rightarrow> string list" where
  "pushIfFilled v label filledFields =
     (if truthy v \<and> v \<noteq> Some ''N/A'' then filledFields @ [label] else filledFields)"

definition filledFields :: "ExtractedInfo \<Rightarrow> string list" where
  "filledFields extractedInfo =
     (pushIfFilled (height_x extractedInfo) ''height''
     (pushIfFilled (weight_x extractedInfo) ''weight''
     (pushIfFilled (oxygenSaturation_x extractedInfo) ''oxygen saturation''
     (pushIfFilled (respiratoryRate_x extractedInfo) ''respiratory rate''
     (pushIfFilled (temperature_x extractedInfo) ''temperature''
     (pushIfFilled (heartRate_x extractedInfo) ''heart rate''
     (pushIfFilled (bloodPressure_x extractedInfo) ''blood pressure''
     (pushIfFilled (treatmentPlan_x extractedInfo) ''treatment plan''
     (pushIfFilled (diagnosis_x extractedInfo) ''diagnosis''
     (pushIfFilled (medicalHistory_x extractedInfo) ''medical history''
     (pushIfFilled (symptoms_x extractedInfo) ''symptoms''
     (pushIfFilled (gender_x extractedInfo) ''gender''
     (pushIfFilled (age_x extractedInfo) ''age''
     (pushIfFilled (patientName_x extractedInfo) ''name'' []))))))))))))))"

definition completeDescription :: "ExtractedInfo \<Rightarrow> string" where
  "completeDescription extractedInfo =
     (if length (filledFields extractedInfo) > 0
      then ''AI analysis complete! Auto-filled: '' @ join '', '' (filledFields extractedInfo)
             @ ''. Please review and edit as needed.''
      else ''AI analysis complete. You can now fill in patient information.'')"

definition analysisFailedToast :: toast where
  "analysisFailedToast =
     \<lparr> title = ''Analysis failed'',
       description =
         ''Could not analyze transcript with AI. Transcript saved for manual entry.'',
       destructive = True \<rparr>"

text \<open>
  \<^verbatim>\<open>handleRecordingComplete(finalTranscript)\<close>, with the reply of the analysis call as
  an argument.  The call is made only when the trimmed transcript is non-empty.
\<close>

definition handleRecordingComplete :: "string \<Rightarrow> invoke_reply \<Rightarrow> Index \<Rightarrow> Index" where
  "handleRecordingComplete finalTranscript reply st =
     (let st1 = st\<lparr>currentTranscript := finalTranscript\<rparr> in
      if trim finalTranscript \<noteq> [] then
        (let st2 = showToast
               \<lparr> title = ''Analyzing transcript'',
                 description = ''Using AI to extract patient information...'',
                 destructive = False \<rparr> st1;
             st3 =
               (case extractedOf reply of
                  Some extractedInfo \<Rightarrow>
                    showToast
                      \<lparr> title = ''Recording complete'',
                        description = completeDescription extractedInfo,
                        destructive = False \<rparr>
                      (st2\<lparr>currentPatient :=
                         updatedPatient (currentPatient st2) finalTranscript extractedInfo\<rparr>)
                | None \<Rightarrow>
                    (let st' = showToast analysisFailedToast st2
                     in st'\<lparr>currentPatient :=
                            (currentPatient st')\<lparr>transcript := finalTranscript\<rparr>\<rparr>))
         in st3\<lparr>activeTab := ''patient''\<rparr>)
      else st1)"

text \<open>The mapping of a row to \<^verbatim>\<open>PatientData\<close> in \<^verbatim>\<open>loadPatients\<close>.\<close>

definition mapPatient :: "patient_row \<Rightarrow> PatientData" where
  "mapPatient patient =
     \<lparr> id_p = col_id patient,
       patientName = col_patient_name patient,
       age = orEmpty (col_age patient),
       gender = orEmpty (col_gender patient),
       symptoms = orEmpty (col_symptoms patient),
       medicalHistory = orEmpty (col_medical_history patient),
       diagnosis = orEmpty (col_diagnosis patient),
       treatmentPlan = orEmpty (col_treatment_plan patient),
       transcript = orEmpty (col_transcript patient),
       formattedTranscript = Some (orEmpty (col_formatted_transcript patient)),
       createdAt = col_created_at patient,
       bloodPressure = orEmpty (col_blood_pressure patient),
       heartRate = orEmpty (col_heart_rate patient),
       temperature = orEmpty (col_temperature patient),
       respiratoryRate = orEmpty (col_respiratory_rate patient),
       oxygenSaturation = orEmpty (col_oxygen_saturation patient),
       weight = orEmpty (col_weight patient),
       height = orEmpty (col_height patient) \<rparr>"

definition loadErrorToast :: toast where
  "loadErrorToast =
     \<lparr> title = ''Error loading patients'',
       description = ''Could not load patient records from database.'',
       destructive = True \<rparr>"

fun loadPatients :: "select_reply \<Rightarrow> Index \<Rightarrow> Index" where
  "loadPatients Select_error st =
     showToast loadErrorToast (st\<lparr>storeCalls := storeCalls st @ [Select]\<rparr>)"
| "loadPatients Select_threw st =
     showToast loadErrorToast (st\<lparr>storeCalls := storeCalls st @ [Select]\<rparr>)"
| "loadPatients (Select_data rows) st =
     (st\<lparr>storeCalls := storeCalls st @ [Select]\<rparr>)
       \<lparr>savedNotes := map mapPatient (case rows of None \<Rightarrow> [] | Some rs \<Rightarrow> rs)\<rparr>"

text \<open>The object literal that \<^verbatim>\<open>handleSavePatient\<close> sends with an update or insert.\<close>

definition patientColumns :: "PatientData \<Rightarrow> (string \<times> string) list" where
  "patientColumns p =
     [ (''patient_name'', patientName p),
       (''age'', age p),
       (''gender'', gender p),
       (''symptoms'', symptoms p),
       (''medical_history'', medicalHistory p),
       (''diagnosis'', diagnosis p),
       (''treatment_plan'', treatmentPlan p),
       (''transcript'', transcript p),
       (''formatted_transcript'', orEmpty (formattedTranscript p)),
       (''blood_pressure'', bloodPressure p),
       (''heart_rate'', heartRate p),
       (''temperature'', temperature p),
       (''respiratory_rate'', respiratoryRate p),
       (''oxygen_saturation'', oxygenSaturation p),
       (''weight'', weight p),
       (''height'', height p) ]"

text \<open>
  The empty patient that the page starts with and resets to; \<open>now\<close> is
  \<^verbatim>\<open>new Date().toISOString()\<close>.  The literal has no \<^verbatim>\<open>formattedTranscript\<close>.
\<close>

definition emptyPatient :: "string \<Rightarrow> PatientData" where
  "emptyPatient now =
     \<lparr> id_p = [], patientName = [], age = [], gender = [], symptoms = [],
       medicalHistory = [], diagnosis = [], treatmentPlan = [], transcript = [],
       formattedTranscript = None, createdAt = now,
       bloodPressure = [], heartRate = [], temperature = [], respiratoryRate = [],
       oxygenSaturation = [], weight = [], height = [] \<rparr>"

text \<open>
  \<^verbatim>\<open>handleSavePatient\<close>.  \<open>writeOk\<close> says whether the update or insert came back
  without an error, \<open>reply\<close> is the reply to the reload and \<open>now\<close> the time of the
  reset.
\<close>

definition handleSavePatient :: "bool \<Rightarrow> select_reply \<Rightarrow> string \<Rightarrow> Index \<Rightarrow> Index" where
  "handleSavePatient writeOk reply now st =
     (if trim (patientName (currentPatient st)) = [] then
        showToast
          \<lparr> title = ''Patient name required'',
            description = ''Please enter the patient's name before saving.'',
            destructive = True \<rparr> st
      else
        (let p = currentPatient st;
             call = (if id_p p \<noteq> [] then Update (id_p p) (patientColumns p)
                     else Insert (patientColumns p));
             st1 = st\<lparr>storeCalls := storeCalls st @ [call]\<rparr>
         in if \<not> writeOk then
              showToast
                \<lparr> title = ''Error saving patient'',
                  description = ''Could not save patient information to database.'',
                  destructive = True \<rparr> st1
            else
              (let st2 = showToast
                     (if id_p p \<noteq> [] then
                        \<lparr> title = ''Patient information updated'',
                          description = ''Updated information for '' @ patientName p @ ''.'',
                          destructive = False \<rparr>
                      else
                        \<lparr> title = ''Patient information saved'',
                          description = ''Saved information for '' @ patientName p @ ''.'',
                          destructive = False \<rparr>) st1;
                   st3 = loadPatients reply st2
               in st3\<lparr> currentPatient := emptyPatient now,
                        currentTranscript := [],
                        activeTab := ''notes'' \<rparr>)))"

section \<open>The voice recorder\<close>

datatype RecordingState = Idle | Recording | Paused

text \<open>
  A speech recognition object made by \<^verbatim>\<open>startRecording\<close>.  Its handlers are closures
  of the render in which \<^verbatim>\<open>startRecording\<close> was created, so the \<^verbatim>\<open>recordingState\<close>
  that \<^verbatim>\<open>recognition.onend\<close> reads is the value of that render: \<open>closureState\<close>.
  \<open>started\<close> says whether the engine of the object is listening.
\<close>

record recognition =
  closureState :: RecordingState
  started :: bool

text \<open>
  The state of the component \<^verbatim>\<open>VoiceRecorder\<close>: its four state variables (the
  displayed \<^verbatim>\<open>transcript\<close> is named \<open>transcript_v\<close>), its two refs, the pending
  \<^verbatim>\<open>setTimeout\<close> callbacks of \<^verbatim>\<open>onend\<close> (each with the \<^verbatim>\<open>recordingState\<close> of its
  closure), and the calls made to the three callbacks of the props, in order.
\<close>

record VoiceRecorder =
  recordingState :: RecordingState
  transcript_v :: string
  error :: string
  isSupported :: bool
  recognitionRef :: "recognition option"
  fullTranscriptRef :: string
  restartTimers :: "RecordingState list"
  onTranscriptUpdate :: "string list"
  onRecordingComplete :: "string list"
  onTranscriptAnalysis :: "string list"

definition initialRecorder :: VoiceRecorder where
  "initialRecorder =
     \<lparr> recordingState = Idle, transcript_v = [], error = [], isSupported = True,
       recognitionRef = None, fullTranscriptRef = [], restartTimers = [],
       onTranscriptUpdate = [], onRecordingComplete = [], onTranscriptAnalysis = [] \<rparr>"

text \<open>
  What the browser answers to \<^verbatim>\<open>startRecording\<close>: whether a speech recognition
  constructor exists, whether \<^verbatim>\<open>getUserMedia\<close> grants the microphone, and whether
  \<^verbatim>\<open>recognition.start()\<close> throws.
\<close>

record browser =
  hasSpeechRecognition :: bool
  micGranted :: bool
  startThrows :: bool

text \<open>
  \<^verbatim>\<open>startRecording(isResume)\<close> of the render whose \<^verbatim>\<open>recordingState\<close> is \<open>rendered\<close>.
\<close>

definition startRecording ::
  "bool \<Rightarrow> RecordingState \<Rightarrow> browser \<Rightarrow> VoiceRecorder \<Rightarrow> VoiceRecorder" where
  "startRecording isResume rendered env s =
     (let s1 = s\<lparr>error := []\<rparr> in
      if \<not> hasSpeechRecognition env then
        s1\<lparr> isSupported := False,
            error := ''Speech recognition is not supported in this browser. ''
                     @ ''Please use Chrome, Safari, or Edge.'' \<rparr>
      else if \<not> micGranted env then
        s1\<lparr>error := ''Microphone access denied. ''
                     @ ''Please allow microphone access and try again.''\<rparr>
      else
        (let s2 = s1\<lparr>recognitionRef := Some \<lparr>closureState = rendered, started = False\<rparr>\<rparr>
         in if startThrows env then
              s2\<lparr>error := ''Failed to start recording. Please try again.''\<rparr>
            else
              (let s3 = s2\<lparr> recognitionRef :=
                                Some \<lparr>closureState = rendered, started = True\<rparr>,
                              recordingState := Recording \<rparr>
               in if \<not> isResume then s3\<lparr>transcript_v := [], fullTranscriptRef := []\<rparr>
                  else s3)))"

text \<open>\<^verbatim>\<open>recognition.onstart\<close>\<close>

definition recognition_onstart :: "VoiceRecorder \<Rightarrow> VoiceRecorder" where
  "recognition_onstart s = s\<lparr>error := []\<rparr>"

text \<open>
  \<^verbatim>\<open>recognition.onresult\<close>.  \<open>results\<close> are the entries of \<^verbatim>\<open>event.results\<close> from
  \<^verbatim>\<open>event.resultIndex\<close> on, each with \<^verbatim>\<open>isFinal\<close> and the text of its first
  alternative.  The loop returns the final and the interim transcript.
\<close>

fun collectResults :: "(bool \<times> string) list \<Rightarrow> string \<times> string \<Rightarrow> string \<times> string" where
  "collectResults [] acc = acc"
| "collectResults ((isFinal, transcriptText) # rest) (finalTranscript, interimTranscript) =
     (if isFinal
      then collectResults rest (finalTranscript @ transcriptText @ '' '', interimTranscript)
      else collectResults rest (finalTranscript, interimTranscript @ transcriptText))"

definition recognition_onresult :: "(bool \<times> string) list \<Rightarrow> VoiceRecorder \<Rightarrow> VoiceRecorder" where
  "recognition_onresult results s =
     (let (finalTranscript, interimTranscript) =
            collectResults results (fullTranscriptRef s, []);
          currentTranscript = trim (finalTranscript @ interimTranscript)
      in s\<lparr> fullTranscriptRef := finalTranscript,
             transcript_v := currentTranscript,
             onTranscriptUpdate := onTranscriptUpdate s @ [currentTranscript] \<rparr>)"

text \<open>\<^verbatim>\<open>recognition.onerror\<close>, with \<^verbatim>\<open>event.error\<close>.\<close>

definition errorMessage :: "string \<Rightarrow> string" where
  "errorMessage kind =
     (if kind = ''no-speech'' then ''No speech detected. Please try speaking clearly.''
      else if kind = ''audio-capture'' then
        ''No microphone found. Please check your microphone.''
      else if kind = ''not-allowed'' then
        ''Microphone access denied. Please allow access and try again.''
      else if kind = ''network'' then
        ''Network error. Please check your internet connection.''
      else ''An error occurred during speech recognition.'')"

definition recognition_onerror :: "string \<Rightarrow> VoiceRecorder \<Rightarrow> VoiceRecorder" where
  "recognition_onerror kind s = s\<lparr>error := errorMessage kind, recordingState := Idle\<rparr>"

text \<open>
  \<^verbatim>\<open>recognition.onend\<close> of an object whose closure holds \<open>closure\<close> as
  \<^verbatim>\<open>recordingState\<close>: when that value is \<^verbatim>\<open>'recording'\<close>, a restart is scheduled.
\<close>

definition recognition_onend :: "RecordingState \<Rightarrow> VoiceRecorder \<Rightarrow> VoiceRecorder" where
  "recognition_onend closure s =
     (if closure = Recording then s\<lparr>restartTimers := restartTimers s @ [closure]\<rparr> else s)"

text \<open>
  The callback of the timer: it starts the object of \<^verbatim>\<open>recognitionRef\<close> when there is
  one and the closure's \<^verbatim>\<open>recordingState\<close> is \<^verbatim>\<open>'recording'\<close>.  (Starting an object that
  is listening throws, and the exception is caught: the object keeps listening.)
\<close>

definition restartCallback :: "RecordingState \<Rightarrow> VoiceRecorder \<Rightarrow> VoiceRecorder" where
  "restartCallback closure s =
     (case recognitionRef s of
        None \<Rightarrow> s
      | Some r \<Rightarrow>
          if closure = Recording then s\<lparr>recognitionRef := Some (r\<lparr>started := True\<rparr>)\<rparr>
          else s)"

text \<open>The oldest pending timer fires.\<close>

definition timerFires :: "VoiceRecorder \<Rightarrow> VoiceRecorder" where
  "timerFires s =
     (case restartTimers s of
        [] \<Rightarrow> s
      | closure # rest \<Rightarrow> restartCallback closure (s\<lparr>restartTimers := rest\<rparr>))"

text \<open>
  The engine of the object in \<^verbatim>\<open>recognitionRef\<close> stops (on its own after a silence, or
  after \<^verbatim>\<open>stop()\<close> in \<^verbatim>\<open>pauseRecording\<close>): the object no longer listens and its
  \<^verbatim>\<open>onend\<close> handler runs.
\<close>

definition streamEnded :: "VoiceRecorder \<Rightarrow> VoiceRecorder" where
  "streamEnded s =
     (case recognitionRef s of
        None \<Rightarrow> s
      | Some r \<Rightarrow>
          recognition_onend (closureState r)
            (s\<lparr>recognitionRef := Some (r\<lparr>started := False\<rparr>)\<rparr>))"

text \<open>\<^verbatim>\<open>stopRecording\<close>: the function has no check of the state of its own.\<close>

definition stopRecording :: "VoiceRecorder \<Rightarrow> VoiceRecorder" where
  "stopRecording s =
     (let s1 = (if recognitionRef s \<noteq> None then s\<lparr>recognitionRef := None\<rparr> else s)
      in s1\<lparr> recordingState := Idle,
              onRecordingComplete := onRecordingComplete s1 @ [trim (fullTranscriptRef s1)] \<rparr>)"

text \<open>
  \<^verbatim>\<open>pauseRecording\<close> of the render whose \<^verbatim>\<open>recordingState\<close> is \<open>rendered\<close>, up to the
  call of \<^verbatim>\<open>onTranscriptAnalysis\<close>; \<open>given\<close> says whether the parent passed that
  callback.
\<close>

definition pauseRecording :: "RecordingState \<Rightarrow> bool \<Rightarrow> VoiceRecorder \<Rightarrow> VoiceRecorder" where
  "pauseRecording rendered given s =
     (if rendered = Recording then
        (let s1 = (case recognitionRef s of
                     None \<Rightarrow> s
                   | Some r \<Rightarrow> s\<lparr>recognitionRef := Some (r\<lparr>started := False\<rparr>)\<rparr>);
             s2 = s1\<lparr>recordingState := Paused\<rparr>;
             currentTranscript = trim (fullTranscriptRef s2)
         in if currentTranscript \<noteq> [] \<and> given
            then s2\<lparr>onTranscriptAnalysis := onTranscriptAnalysis s2 @ [currentTranscript]\<rparr>
            else s2)
      else s)"

text \<open>
  The rest of \<^verbatim>\<open>pauseRecording\<close>, when the analysis has answered with
  \<open>analysisResult\<close> (\<open>None\<close> for null or a rejected promise).
\<close>

definition pauseAnalysisDone :: "ExtractedInfo option \<Rightarrow> VoiceRecorder \<Rightarrow> VoiceRecorder" where
  "pauseAnalysisDone analysisResult s =
     (case analysisResult of
        None \<Rightarrow> s
      | Some info \<Rightarrow>
          if truthy (formattedTranscript_x info) then
            s\<lparr> fullTranscriptRef := orEmpty (formattedTranscript_x info),
                transcript_v := orEmpty (formattedTranscript_x info),
                onTranscriptUpdate :=
                  onTranscriptUpdate s @ [orEmpty (formattedTranscript_x info)] \<rparr>
          else s)"

text \<open>\<^verbatim>\<open>resumeRecording\<close> of the render whose \<^verbatim>\<open>recordingState\<close> is \<open>rendered\<close>.\<close>

definition resumeRecording ::
  "RecordingState \<Rightarrow> browser \<Rightarrow> VoiceRecorder \<Rightarrow> VoiceRecorder" where
  "resumeRecording rendered env s =
     (if rendered = Paused
      then startRecording True rendered env (s\<lparr>recordingState := Recording\<rparr>)
      else s)"

definition handlePauseResume ::
  "RecordingState \<Rightarrow> bool \<Rightarrow> browser \<Rightarrow> VoiceRecorder \<Rightarrow> VoiceRecorder" where
  "handlePauseResume rendered given env s =
     (if rendered = Recording then pauseRecording rendered given s
      else if rendered = Paused then resumeRecording rendered env s
      else s)"

text \<open>
  The three buttons.  A click reaches the handler of the current render unless the
  button is disabled: Start has \<^verbatim>\<open>disabled={!isIdle || !isSupported}\<close>, the other two
  have \<^verbatim>\<open>disabled={isIdle || !isSupported}\<close>.
\<close>

definition clickStart :: "browser \<Rightarrow> VoiceRecorder \<Rightarrow> VoiceRecorder" where
  "clickStart env s =
     (if recordingState s \<noteq> Idle \<or> \<not> isSupported s then s
      else startRecording False (recordingState s) env s)"

definition clickPauseResume :: "bool \<Rightarrow> browser \<Rightarrow> VoiceRecorder \<Rightarrow> VoiceRecorder" where
  "clickPauseResume given env s =
     (if recordingState s = Idle \<or> \<not> isSupported s then s
      else handlePauseResume (recordingState s) given env s)"

definition clickStop :: "VoiceRecorder \<Rightarrow> VoiceRecorder" where
  "clickStop s =
     (if recordingState s = Idle \<or> \<not> isSupported s then s
      else stopRecording s)"

text \<open>
  The four operations of the session.  Start and stop are the clicks on their buttons;
  pause and resume are the two functions behind the middle button, which check the
  state themselves.
\<close>

datatype operation = Start | Pause | Resume | Stop

fun perform :: "operation \<Rightarrow> bool \<Rightarrow> browser \<Rightarrow> VoiceRecorder \<Rightarrow> VoiceRecorder" where
  "perform Start given env s = clickStart env s"
| "perform Pause given env s = pauseRecording (recordingState s) given s"
| "perform Resume given env s = resumeRecording (recordingState s) env s"
| "perform Stop given env s = clickStop s"

text \<open>The source states of each operation in the transition table.\<close>

fun validFrom :: "operation \<Rightarrow> RecordingState \<Rightarrow> bool" where
  "validFrom Start st = (st = Idle)"
| "validFrom Pause st = (st = Recording)"
| "validFrom Resume st = (st = Paused)"
| "validFrom Stop st = (st = Recording \<or> st = Paused)"

section \<open>The heuristic transcript parser\<close>

subsection \<open>Strings and numbers\<close>

text \<open>
  \<^verbatim>\<open>toLowerCase\<close> on the Latin-1 range: the letters A to Z and the capital letters from
  0xC0 to 0xDE (without the multiplication sign 0xD7) move up by 32.
\<close>

definition toLowerChar :: "char \<Rightarrow> char" where
  "toLowerChar c =
     (let n = (of_char c :: nat)
      in if (65 \<le> n \<and> n \<le> 90) \<or> (192 \<le> n \<and> n \<le> 222 \<and> n \<noteq> 215)
         then char_of (n + 32) else c)"

definition toLowerCase :: "string \<Rightarrow> string" where
  "toLowerCase s = map toLowerChar s"

definition isLetter :: "char \<Rightarrow> bool" where
  "isLetter c =
     (let n = (of_char c :: nat) in (65 \<le> n \<and> n \<le> 90) \<or> (97 \<le> n \<and> n \<le> 122))"

definition isDigit :: "char \<Rightarrow> bool" where
  "isDigit c = (let n = (of_char c :: nat) in 48 \<le> n \<and> n \<le> 57)"

text \<open>\<^verbatim>\<open>String.prototype.includes\<close>: \<open>k\<close> occurs in \<open>s\<close> as a block.\<close>

fun startsWith :: "string \<Rightarrow> string \<Rightarrow> bool" where
  "startsWith s [] = True"
| "startsWith [] (k # ks) = False"
| "startsWith (c # cs) (k # ks) = (c = k \<and> startsWith cs ks)"

fun str_includes :: "string \<Rightarrow> string \<Rightarrow> bool" where
  "str_includes [] k = (k = [])"
| "str_includes (c # cs) k = (startsWith (c # cs) k \<or> str_includes cs k)"

text \<open>
  \<^verbatim>\<open>parseInt\<close> on the strings the parser gives it: leading white space, a sign, and
  the longest run of decimal digits; \<open>None\<close> is \<^verbatim>\<open>NaN\<close>.  (A match of the age patterns
  never starts with the prefix \<^verbatim>\<open>0x\<close>, which is the other form \<^verbatim>\<open>parseInt\<close> reads.)
\<close>

definition digitValue :: "char \<Rightarrow> nat" where
  "digitValue c = (of_char c :: nat) - 48"

definition parseInt :: "string \<Rightarrow> int option" where
  "parseInt s =
     (let t = dropWhile isWhiteSpace s;
          neg = (case t of [] \<Rightarrow> False | c # _ \<Rightarrow> c = CHR ''-'');
          u = (case t of
                 [] \<Rightarrow> []
               | c # cs \<Rightarrow> if c = CHR ''-'' \<or> c = CHR ''+'' then cs else t);
          ds = takeWhile isDigit u;
          n = int (foldl (\<lambda>n c. 10 * n + digitValue c) 0 ds)
      in if ds = [] then None else Some (if neg then - n else n))"

text \<open>\<^verbatim>\<open>Number.prototype.toString\<close> on a natural number.\<close>

function toString :: "nat \<Rightarrow> string" where
  "toString n =
     (if n < 10 then [''0123456789'' ! n]
      else toString (n div 10) @ [''0123456789'' ! (n mod 10)])"
  by pat_completeness auto
termination
  by (relation "measure id") auto

subsection \<open>Regular expressions\<close>

text \<open>
  The fragment of regular expressions that the parser uses, all with the flag
  \<^verbatim>\<open>i\<close>: a literal character (compared without case), the classes \<^verbatim>\<open>[a-z]\<close>, \<^verbatim>\<open>\d\<close>
  and \<^verbatim>\<open>\s\<close>, sequence, alternative, the greedy \<^verbatim>\<open>*\<close> and the greedy \<^verbatim>\<open>?\<close>.
\<close>

datatype regex =
    Eps
  | Chr char
  | Letter
  | Digit
  | Space
  | Seq regex regex
  | Alt regex regex
  | Star regex
  | Opt regex

text \<open>
  \<open>rmatch r s\<close> lists what is left of \<open>s\<close> after each way of matching \<open>r\<close> at its
  start, in the order in which a backtracking matcher tries them: the left
  alternative first, the longer repetition first.  An iteration of \<^verbatim>\<open>*\<close> that consumes
  nothing is not repeated.
\<close>

fun rmatch :: "regex \<Rightarrow> string \<Rightarrow> string list" where
  "rmatch Eps s = [s]"
| "rmatch (Chr c) s =
     (case s of [] \<Rightarrow> [] | x # xs \<Rightarrow> if toLowerChar x = toLowerChar c then [xs] else [])"
| "rmatch Letter s = (case s of [] \<Rightarrow> [] | x # xs \<Rightarrow> if isLetter x then [xs] else [])"
| "rmatch Digit s = (case s of [] \<Rightarrow> [] | x # xs \<Rightarrow> if isDigit x then [xs] else [])"
| "rmatch Space s = (case s of [] \<Rightarrow> [] | x # xs \<Rightarrow> if isWhiteSpace x then [xs] else [])"
| "rmatch (Seq a b) s = concat (map (rmatch b) (rmatch a s))"
| "rmatch (Alt a b) s = rmatch a s @ rmatch b s"
| "rmatch (Opt a) s = rmatch a s @ [s]"
| "rmatch (Star a) s =
     concat (map (\<lambda>t. if length t < length s then rmatch (Star a) t else []) (rmatch a s))
       @ [s]"

text \<open>
  \<^verbatim>\<open>String.prototype.match\<close> with a regular expression that has the flag \<^verbatim>\<open>g\<close>: the
  array of all matched substrings, from left to right, each search starting where
  the match before ended (one character further after an empty match).  Capture
  groups are not part of this array.  The empty list stands for \<^verbatim>\<open>null\<close>.
\<close>

function matchAll :: "regex \<Rightarrow> string \<Rightarrow> string list" where
  "matchAll r s =
     (case rmatch r s of
        [] \<Rightarrow> (case s of [] \<Rightarrow> [] | x # xs \<Rightarrow> matchAll r xs)
      | t # _ \<Rightarrow>
          if length t < length s then take (length s - length t) s # matchAll r t
          else (case s of [] \<Rightarrow> [[]] | x # xs \<Rightarrow> [] # matchAll r xs))"
  by pat_completeness auto
termination
  by (relation "measure (\<lambda>(r, s). length s)") auto

text \<open>A literal string, \<^verbatim>\<open>r+\<close>, and \<^verbatim>\<open>\d{1,3}\<close>.\<close>

fun lit :: "string \<Rightarrow> regex" where
  "lit [] = Eps"
| "lit [c] = Chr c"
| "lit (c # cs) = Seq (Chr c) (lit cs)"

definition Plus :: "regex \<Rightarrow> regex" where
  "Plus r = Seq r (Star r)"

definition digits13 :: regex where
  "digits13 = Seq Digit (Opt (Seq Digit (Opt Digit)))"

text \<open>\<^verbatim>\<open>[a-z]+(?:\s+[a-z]+)*\<close>\<close>

definition nameWords :: regex where
  "nameWords = Seq (Plus Letter) (Star (Seq (Plus Space) (Plus Letter)))"

text \<open>
  \<^verbatim>\<open>/(?:patient|my name is|i'm|i am|this is)\s+([a-z]+(?:\s+[a-z]+)*)/gi\<close> and
  \<^verbatim>\<open>/(?:name|called?)\s+([a-z]+(?:\s+[a-z]+)*)/gi\<close>
\<close>

definition namePatterns :: "regex list" where
  "namePatterns =
     [ Seq (Alt (lit ''patient'') (Alt (lit ''my name is'') (Alt (lit ''i'm'')
          (Alt (lit ''i am'') (lit ''this is'')))))
         (Seq (Plus Space) nameWords),
       Seq (Alt (lit ''name'') (Seq (lit ''calle'') (Opt (Chr CHR ''d''))))
         (Seq (Plus Space) nameWords) ]"

text \<open>\<^verbatim>\<open>(?:years old|year old|years|year)\<close>\<close>

definition yearsWords :: regex where
  "yearsWords =
     Alt (lit ''years old'') (Alt (lit ''year old'') (Alt (lit ''years'') (lit ''year'')))"

text \<open>
  \<^verbatim>\<open>/(?:i'm|i am|age|years old)\s*(\d{1,3})\s*(?:years old|year old|years|year)?/gi\<close> and
  \<^verbatim>\<open>/(\d{1,3})\s*(?:years old|year old|years|year)/gi\<close>
\<close>

definition agePatterns :: "regex list" where
  "agePatterns =
     [ Seq (Alt (lit ''i'm'') (Alt (lit ''i am'') (Alt (lit ''age'') (lit ''years old''))))
         (Seq (Star Space) (Seq digits13 (Seq (Star Space) (Opt yearsWords)))),
       Seq digits13 (Seq (Star Space) yearsWords) ]"

subsection \<open>The parser\<close>

text \<open>
  The loop over \<^verbatim>\<open>namePatterns\<close>: \<^verbatim>\<open>nameMatch[1]\<close> is the second element of the array
  of matches; the first pattern whose second match, trimmed, has between 2 and 49
  characters gives the name.
\<close>

fun firstName :: "regex list \<Rightarrow> string \<Rightarrow> string option" where
  "firstName [] txt = None"
| "firstName (pattern # rest) txt =
     (case matchAll pattern txt of
        _ # m1 # _ \<Rightarrow>
          if m1 \<noteq> [] \<and> 1 < length (trim m1) \<and> length (trim m1) < 50 then Some (trim m1)
          else firstName rest txt
      | _ \<Rightarrow> firstName rest txt)"

text \<open>
  The loop over \<^verbatim>\<open>agePatterns\<close>: \<^verbatim>\<open>parseInt(ageMatch[1])\<close> reads the second element of
  the array of matches; the first pattern for which it lies strictly between 0 and 150
  gives the age.
\<close>

fun firstAge :: "regex list \<Rightarrow> string \<Rightarrow> string option" where
  "firstAge [] txt = None"
| "firstAge (pattern # rest) txt =
     (case matchAll pattern txt of
        _ # m1 # _ \<Rightarrow>
          (case (if m1 \<noteq> [] then parseInt m1 else None) of
             Some n \<Rightarrow>
               if 0 < n \<and> n < 150 then Some (toString (nat n))
               else firstAge rest txt
           | None \<Rightarrow> firstAge rest txt)
      | _ \<Rightarrow> firstAge rest txt)"

text \<open>
  \<^verbatim>\<open>transcript.split(/[.!?]+/)\<close>: \<open>piece\<close> is the sentence read so far.
\<close>

definition isTerminator :: "char \<Rightarrow> bool" where
  "isTerminator c \<longleftrightarrow> c = CHR ''.'' \<or> c = CHR ''!'' \<or> c = CHR ''?''"

function splitSentences :: "string \<Rightarrow> string \<Rightarrow> string list" where
  "splitSentences piece [] = [piece]"
| "splitSentences piece (c # cs) =
     (if isTerminator c then piece # splitSentences [] (dropWhile isTerminator cs)
      else splitSentences (piece @ [c]) cs)"
  by pat_completeness auto
termination
  by (relation "measure (\<lambda>(piece, s). length s)")
     (auto simp: less_Suc_eq_le length_dropWhile_le)

definition symptomKeywords :: "string list" where
  "symptomKeywords =
     [ ''pain'', ''hurt'', ''ache'', ''sore'', ''headache'', ''fever'', ''cough'', ''cold'',
       ''flu'', ''nausea'', ''vomiting'', ''diarrhea'', ''constipation'', ''bleeding'',
       ''swelling'', ''rash'', ''itching'', ''burning'', ''numbness'', ''tingling'',
       ''weakness'', ''fatigue'', ''dizzy'', ''shortness of breath'', ''chest pain'',
       ''back pain'', ''stomach pain'', ''sinus'', ''congestion'', ''runny nose'',
       ''sneezing'', ''allergies'' ]"

definition historyKeywords :: "string list" where
  "historyKeywords =
     [ ''history'', ''previous'', ''before'', ''surgery'', ''operation'', ''medication'',
       ''allergic'', ''allergy'', ''diabetes'', ''hypertension'', ''blood pressure'',
       ''heart'', ''cancer'', ''family history'', ''genetic'', ''chronic'', ''condition'' ]"

definition diagnosisKeywords :: "string list" where
  "diagnosisKeywords =
     [ ''diagnosis'', ''diagnosed'', ''condition'', ''syndrome'', ''disease'', ''infection'',
       ''inflammation'', ''disorder'', ''pneumonia'', ''bronchitis'', ''arthritis'',
       ''migraine'', ''anxiety'', ''depression'', ''strain'', ''sprain'' ]"

definition treatmentKeywords :: "string list" where
  "treatmentKeywords =
     [ ''treatment'', ''medication'', ''prescription'', ''take'', ''rest'', ''follow up'',
       ''therapy'', ''exercise'', ''diet'', ''avoid'', ''recommend'', ''suggest'',
       ''antibiotics'', ''pain relief'', ''ibuprofen'', ''acetaminophen'', ''aspirin'' ]"

text \<open>
  The loop over the sentences for one list of keywords: the sentences whose lower
  case form includes some keyword, each trimmed, in their order.
\<close>

definition keywordSentences :: "string list \<Rightarrow> string list \<Rightarrow> string list" where
  "keywordSentences keywords sentences =
     map trim
       (filter (\<lambda>sentence. list_ex (str_includes (toLowerCase sentence)) keywords)
          sentences)"

text \<open>\<^verbatim>\<open>if (found.length > 0) field = found.join('. ').trim()\<close>\<close>

definition joinFound :: "string list \<Rightarrow> string option" where
  "joinFound found = (if length found > 0 then Some (trim (join ''. '' found)) else None)"

definition parseTranscriptForPatientInfo :: "string \<Rightarrow> ParsedPatientInfo" where
  "parseTranscriptForPatientInfo txt =
     (let lowerTranscript = toLowerCase txt;
          sentences = splitSentences [] txt
      in \<lparr> patientName_h = firstName namePatterns txt,
           age_h = firstAge agePatterns txt,
           gender_h =
             (if str_includes lowerTranscript ''female''
                 \<or> str_includes lowerTranscript ''woman''
                 \<or> str_includes lowerTranscript ''she/her'' then Some ''Female''
              else if str_includes lowerTranscript ''male''
                 \<or> str_includes lowerTranscript ''man''
                 \<or> str_includes lowerTranscript ''he/him'' then Some ''Male''
              else None),
           symptoms_h = joinFound (keywordSentences symptomKeywords sentences),
           medicalHistory_h = joinFound (keywordSentences historyKeywords sentences),
           diagnosis_h = joinFound (keywordSentences diagnosisKeywords sentences),
           treatmentPlan_h = joinFound (keywordSentences treatmentKeywords sentences) \<rparr>)"

text \<open>
  The words of the specification for "the text contains the cue": the cue occurs
  somewhere in the text.
\<close>

definition contains :: "string \<Rightarrow> string \<Rightarrow> bool" where
  "contains s k \<longleftrightarrow> (\<exists>u v. s = u @ k @ v)"

section \<open>Fields by name\<close>

text \<open>
  The properties of \<^verbatim>\<open>PatientData\<close> by name, to state a property for every field:
  \<open>field_of f p\<close> is \<^verbatim>\<open>p[f]\<close>, \<open>extracted_of f x\<close> is \<^verbatim>\<open>extractedInfo[f]\<close> and
  \<open>parsed_of f h\<close> is \<^verbatim>\<open>parsed[f]\<close>; a property that the object does not have reads
  as \<open>None\<close>.
\<close>

datatype field =
    F_id | F_patientName | F_age | F_gender | F_symptoms | F_medicalHistory
  | F_diagnosis | F_treatmentPlan | F_transcript | F_formattedTranscript | F_createdAt
  | F_bloodPressure | F_heartRate | F_temperature | F_respiratoryRate
  | F_oxygenSaturation | F_weight | F_height

fun field_of :: "field \<Rightarrow> PatientData \<Rightarrow> string option" where
  "field_of F_id p = Some (id_p p)"
| "field_of F_patientName p = Some (patientName p)"
| "field_of F_age p = Some (age p)"
| "field_of F_gender p = Some (gender p)"
| "field_of F_symptoms p = Some (symptoms p)"
| "field_of F_medicalHistory p = Some (medicalHistory p)"
| "field_of F_diagnosis p = Some (diagnosis p)"
| "field_of F_treatmentPlan p = Some (treatmentPlan p)"
| "field_of F_transcript p = Some (transcript p)"
| "field_of F_formattedTranscript p = formattedTranscript p"
| "field_of F_createdAt p = Some (createdAt p)"
| "field_of F_bloodPressure p = Some (bloodPressure p)"
| "field_of F_heartRate p = Some (heartRate p)"
| "field_of F_temperature p = Some (temperature p)"
| "field_of F_respiratoryRate p = Some (respiratoryRate p)"
| "field_of F_oxygenSaturation p = Some (oxygenSaturation p)"
| "field_of F_weight p = Some (weight p)"
| "field_of F_height p = Some (height p)"

fun extracted_of :: "field \<Rightarrow> ExtractedInfo \<Rightarrow> string option" where
  "extracted_of F_patientName x = patientName_x x"
| "extracted_of F_age x = age_x x"
| "extracted_of F_gender x = gender_x x"
| "extracted_of F_symptoms x = symptoms_x x"
| "extracted_of F_medicalHistory x = medicalHistory_x x"
| "extracted_of F_diagnosis x = diagnosis_x x"
| "extracted_of F_treatmentPlan x = treatmentPlan_x x"
| "extracted_of F_formattedTranscript x = formattedTranscript_x x"
| "extracted_of F_bloodPressure x = bloodPressure_x x"
| "extracted_of F_heartRate x = heartRate_x x"
| "extracted_of F_temperature x = temperature_x x"
| "extracted_of F_respiratoryRate x = respiratoryRate_x x"
| "extracted_of F_oxygenSaturation x = oxygenSaturation_x x"
| "extracted_of F_weight x = weight_x x"
| "extracted_of F_height x = height_x x"
| "extracted_of F_id x = None"
| "extracted_of F_transcript x = None"
| "extracted_of F_createdAt x = None"

fun parsed_of :: "field \<Rightarrow> ParsedPatientInfo \<Rightarrow> string option" where
  "parsed_of F_patientName h = patientName_h h"
| "parsed_of F_age h = age_h h"
| "parsed_of F_gender h = gender_h h"
| "parsed_of F_symptoms h = symptoms_h h"
| "parsed_of F_medicalHistory h = medicalHistory_h h"
| "parsed_of F_diagnosis h = diagnosis_h h"
| "parsed_of F_treatmentPlan h = treatmentPlan_h h"
| "parsed_of f h = None"

text \<open>
  The fourteen fields that \<^verbatim>\<open>handleRecordingComplete\<close> assigns through
  \<^verbatim>\<open>mergeValue\<close>, and the seven that \<^verbatim>\<open>mergePatientData\<close> lists.
\<close>

definition mergedFields :: "field list" where
  "mergedFields =
     [ F_patientName, F_age, F_gender, F_symptoms, F_medicalHistory, F_diagnosis,
       F_treatmentPlan, F_bloodPressure, F_heartRate, F_temperature, F_respiratoryRate,
       F_oxygenSaturation, F_weight, F_height ]"

definition heuristicFields :: "field list" where
  "heuristicFields =
     [ F_patientName, F_age, F_gender, F_symptoms, F_medicalHistory, F_diagnosis,
       F_treatmentPlan ]"

text \<open>
  The rule of reconciliation in the words of the specification: the incoming value
  when it is present, non-empty and not the sentinel, the current value otherwise.
\<close>

definition meaningful :: "string option \<Rightarrow> bool" where
  "meaningful v \<longleftrightarrow> v \<noteq> None \<and> v \<noteq> Some [] \<and> v \<noteq> Some ''N/A''"

definition reconciled :: "string option \<Rightarrow> string option \<Rightarrow> string option" where
  "reconciled current incoming = (if meaningful incoming then incoming else current)"

text \<open>
  The rule of the heuristic merge in the words of the specification: the existing
  value when it is non-empty, else the parsed value when there is one, else the
  existing value.
\<close>

definition gapFilled :: "string option \<Rightarrow> string option \<Rightarrow> string option" where
  "gapFilled existing parsed =
     (if existing \<noteq> None \<and> existing \<noteq> Some [] then existing
      else if parsed \<noteq> None then parsed
      else existing)"

text \<open>An extraction result without any property, and the first state of the page.\<close>

definition noExtraction :: ExtractedInfo where
  "noExtraction =
     \<lparr> patientName_x = None, age_x = None, gender_x = None, symptoms_x = None,
       medicalHistory_x = None, diagnosis_x = None, treatmentPlan_x = None,
       formattedTranscript_x = None, bloodPressure_x = None, heartRate_x = None,
       temperature_x = None, respiratoryRate_x = None, oxygenSaturation_x = None,
       weight_x = None, height_x = None \<rparr>"

definition noParse :: ParsedPatientInfo where
  "noParse =
     \<lparr> patientName_h = None, age_h = None, gender_h = None, symptoms_h = None,
       medicalHistory_h = None, diagnosis_h = None, treatmentPlan_h = None \<rparr>"

definition initialIndex :: "string \<Rightarrow> Index" where
  "initialIndex now =
     \<lparr> currentTranscript = [], savedNotes = [], currentPatient = emptyPatient now,
       activeTab = ''record'', toasts = [], storeCalls = [] \<rparr>"

definition browserOk :: browser where
  "browserOk = \<lparr> hasSpeechRecognition = True, micGranted = True, startThrows = False \<rparr>"

section \<open>Properties of the two merges\<close>

lemma mergeValue_reconciled: "Some (mergeValue cur inc) = reconciled (Some cur) inc"
  by (cases inc) (simp_all add: reconciled_def meaningful_def)

lemma mergeValue_idem: "mergeValue (mergeValue cur inc) inc = mergeValue cur inc"
  by (cases inc) simp_all

lemma reconciled_not_sentinel:
  "cur \<noteq> ''N/A'' \<Longrightarrow> reconciled (Some cur) inc \<noteq> Some ''N/A''"
  by (simp add: reconciled_def meaningful_def)

lemma fillEmpty_gapFilled: "Some (fillEmpty ex pa) = gapFilled (Some ex) pa"
  by (cases pa) (auto simp add: gapFilled_def)

text \<open>
  Claim C1, as it is stated, says that reconciliation follows one rule for every field
  (the incoming value when it is non-empty and not \<^verbatim>\<open>"N/A"\<close>, the current value
  otherwise) and that \<^verbatim>\<open>"N/A"\<close> is therefore never in the record afterwards.  That fails
  at \<^verbatim>\<open>formattedTranscript\<close>: with no incoming value the current labelled transcript is
  replaced by the empty string, and an incoming \<^verbatim>\<open>"N/A"\<close> is stored as it is.  A
  current field that already holds \<^verbatim>\<open>"N/A"\<close> also keeps it when nothing meaningful
  comes in.
\<close>

theorem reconcile_every_field_counterexample:
  "field_of F_formattedTranscript
     (updatedPatient ((emptyPatient [])\<lparr>formattedTranscript := Some ''Doctor: hello''\<rparr>)
        ''hello'' noExtraction)
     \<noteq> reconciled (Some ''Doctor: hello'') (extracted_of F_formattedTranscript noExtraction)
   \<and> field_of F_formattedTranscript
       (updatedPatient (emptyPatient []) ''hello''
          (noExtraction\<lparr>formattedTranscript_x := Some ''N/A''\<rparr>)) = Some ''N/A''
   \<and> field_of F_age
       (updatedPatient ((emptyPatient [])\<lparr>age := ''N/A''\<rparr>) ''hello'' noExtraction)
       = Some ''N/A''"
  by (simp add: updatedPatient_def emptyPatient_def noExtraction_def reconciled_def
        meaningful_def)

text \<open>
  Claim C1, amended: for each of the fourteen fields that go through \<^verbatim>\<open>mergeValue\<close>
  (name, age, gender, symptoms, medical history, diagnosis, treatment plan and the
  seven vitals) the result is the incoming value when that is non-empty and not
  \<^verbatim>\<open>"N/A"\<close>, and the current value otherwise; so a field of these that did not hold
  \<^verbatim>\<open>"N/A"\<close> before does not hold it after.  The transcript becomes the final
  transcript, the formatted transcript becomes the incoming one or the empty string
  when that is absent or empty, and identifier and creation time stay.
\<close>

theorem reconcile_merged_fields:
  "(\<forall>f \<in> set mergedFields.
      field_of f (updatedPatient c ft x) = reconciled (field_of f c) (extracted_of f x)
      \<and> (field_of f c \<noteq> Some ''N/A'' \<longrightarrow>
           field_of f (updatedPatient c ft x) \<noteq> Some ''N/A''))
   \<and> transcript (updatedPatient c ft x) = ft
   \<and> formattedTranscript (updatedPatient c ft x) = Some (orEmpty (formattedTranscript_x x))
   \<and> id_p (updatedPatient c ft x) = id_p c
   \<and> createdAt (updatedPatient c ft x) = createdAt c"
  by (simp add: mergedFields_def updatedPatient_def mergeValue_reconciled
        reconciled_not_sentinel)

theorem reconcile_merged_fields_witness:
  "field_of F_age
     (updatedPatient ((emptyPatient [])\<lparr>age := ''41''\<rparr>) ''hello''
        (noExtraction\<lparr>age_x := Some ''N/A'', diagnosis_x := Some ''flu''\<rparr>)) = Some ''41''
   \<and> field_of F_diagnosis
     (updatedPatient ((emptyPatient [])\<lparr>age := ''41''\<rparr>) ''hello''
        (noExtraction\<lparr>age_x := Some ''N/A'', diagnosis_x := Some ''flu''\<rparr>)) = Some ''flu''
   \<and> field_of F_diagnosis
     (updatedPatient ((emptyPatient [])\<lparr>age := ''41''\<rparr>) ''hello''
        (noExtraction\<lparr>age_x := Some ''N/A'', diagnosis_x := Some ''flu''\<rparr>)) \<noteq> Some ''N/A''"
proof -
  have a: "F_age \<in> set mergedFields" and d: "F_diagnosis \<in> set mergedFields"
    by (simp_all add: mergedFields_def)
  show ?thesis
    using reconcile_merged_fields
      [of "(emptyPatient [])\<lparr>age := ''41''\<rparr>" "''hello''"
          "noExtraction\<lparr>age_x := Some ''N/A'', diagnosis_x := Some ''flu''\<rparr>"]
      a d
    by (auto simp add: emptyPatient_def noExtraction_def reconciled_def meaningful_def)
qed

text \<open>
  Claim C2: for every existing record, every parse result and every field,
  \<^verbatim>\<open>mergePatientData\<close> returns the existing value when it is non-empty, else the parsed
  value when there is one, else the existing value; in particular a non-empty
  existing field is never overwritten.
\<close>

theorem mergePatientData_fills_gaps:
  "field_of f (mergePatientData existing parsed)
     = gapFilled (field_of f existing) (parsed_of f parsed)
   \<and> (field_of f existing \<noteq> None \<and> field_of f existing \<noteq> Some [] \<longrightarrow>
        field_of f (mergePatientData existing parsed) = field_of f existing)"
proof -
  have eq: "field_of f (mergePatientData existing parsed)
     = gapFilled (field_of f existing) (parsed_of f parsed)"
    by (cases f)
       (simp_all add: mergePatientData_def fillEmpty_gapFilled, simp_all add: gapFilled_def)
  then show ?thesis by (simp add: gapFilled_def)
qed

theorem mergePatientData_fills_gaps_witness:
  "field_of F_patientName
     (mergePatientData ((emptyPatient [])\<lparr>patientName := ''Ann Lee''\<rparr>)
        (noParse\<lparr>patientName_h := Some ''Bob'', age_h := Some ''34''\<rparr>)) = Some ''Ann Lee''
   \<and> field_of F_age
     (mergePatientData ((emptyPatient [])\<lparr>patientName := ''Ann Lee''\<rparr>)
        (noParse\<lparr>patientName_h := Some ''Bob'', age_h := Some ''34''\<rparr>)) = Some ''34''"
  using mergePatientData_fills_gaps
      [of F_patientName "(emptyPatient [])\<lparr>patientName := ''Ann Lee''\<rparr>"
          "noParse\<lparr>patientName_h := Some ''Bob'', age_h := Some ''34''\<rparr>"]
    mergePatientData_fills_gaps
      [of F_age "(emptyPatient [])\<lparr>patientName := ''Ann Lee''\<rparr>"
          "noParse\<lparr>patientName_h := Some ''Bob'', age_h := Some ''34''\<rparr>"]
  by (simp add: emptyPatient_def noParse_def gapFilled_def)

text \<open>
  Claim C3: reconciliation is idempotent.  Merging the same extraction result (with
  the same final transcript) into the result of a first merge gives that result
  again, field for field.
\<close>

theorem reconcile_idempotent:
  "updatedPatient (updatedPatient c ft x) ft x = updatedPatient c ft x"
  by (simp add: updatedPatient_def mergeValue_idem)

text \<open>
  Claim C10: \<^verbatim>\<open>mergePatientData\<close> changes at most the seven fields it lists; every
  other field of the existing record (identifier, creation time, both transcripts
  and the vitals) comes back as it was.
\<close>

theorem mergePatientData_frame:
  "f \<notin> set heuristicFields \<Longrightarrow>
     field_of f (mergePatientData existing parsed) = field_of f existing"
  by (cases f) (simp_all add: mergePatientData_def heuristicFields_def)

theorem mergePatientData_frame_witness:
  "field_of F_transcript
     (mergePatientData ((emptyPatient [])\<lparr>transcript := ''hello''\<rparr>)
        (noParse\<lparr>patientName_h := Some ''Bob''\<rparr>)) = Some ''hello''
   \<and> field_of F_heartRate
     (mergePatientData ((emptyPatient [])\<lparr>heartRate := ''72 bpm''\<rparr>)
        (noParse\<lparr>patientName_h := Some ''Bob''\<rparr>)) = Some ''72 bpm''"
proof -
  have a: "F_transcript \<notin> set heuristicFields" and b: "F_heartRate \<notin> set heuristicFields"
    by (simp_all add: heuristicFields_def)
  show ?thesis
    using mergePatientData_frame [OF a] mergePatientData_frame [OF b]
    by simp
qed

section \<open>Properties of the page\<close>

text \<open>
  Claim C6: when the analysis at the end of a recording fails (an error, a rejected
  call, or a body without success and data), the current patient is the one from
  before with its transcript set to the final transcript, so every other field is as
  it was; the last notice shown is the one that says the transcript was saved for
  manual entry, and nothing is sent to the record store.
\<close>

theorem analysis_failure_keeps_fields:
  "trim finalTranscript \<noteq> [] \<Longrightarrow> extractedOf reply = None \<Longrightarrow>
     currentPatient (handleRecordingComplete finalTranscript reply st)
       = (currentPatient st)\<lparr>transcript := finalTranscript\<rparr>
     \<and> (\<forall>f. f \<noteq> F_transcript \<longrightarrow>
          field_of f (currentPatient (handleRecordingComplete finalTranscript reply st))
            = field_of f (currentPatient st))
     \<and> last (toasts (handleRecordingComplete finalTranscript reply st)) = analysisFailedToast
     \<and> storeCalls (handleRecordingComplete finalTranscript reply st) = storeCalls st"
proof -
  assume a: "trim finalTranscript \<noteq> []" and b: "extractedOf reply = None"
  have cp: "currentPatient (handleRecordingComplete finalTranscript reply st)
       = (currentPatient st)\<lparr>transcript := finalTranscript\<rparr>"
    using a b by (simp add: handleRecordingComplete_def showToast_def Let_def)
  have fr: "\<forall>f. f \<noteq> F_transcript \<longrightarrow>
          field_of f ((currentPatient st)\<lparr>transcript := finalTranscript\<rparr>)
            = field_of f (currentPatient st)"
  proof (intro allI impI)
    fix f :: field
    assume "f \<noteq> F_transcript"
    then show "field_of f ((currentPatient st)\<lparr>transcript := finalTranscript\<rparr>)
            = field_of f (currentPatient st)"
      by (cases f) simp_all
  qed
  have ts: "last (toasts (handleRecordingComplete finalTranscript reply st))
              = analysisFailedToast"
    using a b by (simp add: handleRecordingComplete_def showToast_def Let_def)
  have sc: "storeCalls (handleRecordingComplete finalTranscript reply st) = storeCalls st"
    using a b by (simp add: handleRecordingComplete_def showToast_def Let_def)
  from cp fr ts sc show ?thesis by simp
qed

theorem analysis_failure_keeps_fields_witness:
  "currentPatient (handleRecordingComplete ''patient reports pain.'' Invoke_error
       ((initialIndex ''2025-09-27'')
          \<lparr>currentPatient := (emptyPatient ''2025-09-27'')\<lparr>age := ''41''\<rparr>\<rparr>))
     = (emptyPatient ''2025-09-27'')\<lparr>age := ''41'', transcript := ''patient reports pain.''\<rparr>
   \<and> last (toasts (handleRecordingComplete ''patient reports pain.'' Invoke_error
       ((initialIndex ''2025-09-27'')
          \<lparr>currentPatient := (emptyPatient ''2025-09-27'')\<lparr>age := ''41''\<rparr>\<rparr>)))
     = analysisFailedToast"
proof -
  have a: "trim ''patient reports pain.'' \<noteq> []"
    by (simp add: trim_def isWhiteSpace_def)
  have b: "extractedOf Invoke_error = None"
    by simp
  show ?thesis
    using analysis_failure_keeps_fields
      [OF a b, of "(initialIndex ''2025-09-27'')
          \<lparr>currentPatient := (emptyPatient ''2025-09-27'')\<lparr>age := ''41''\<rparr>\<rparr>"]
    by (simp add: initialIndex_def)
qed

text \<open>
  Claim C9: saving while the name of the current patient is empty or only white
  space sends neither an insert nor an update (no request at all) to the record
  store and leaves the current patient, the saved notes and the current transcript
  as they were; the only effect is the notice that a name is required.
\<close>

theorem save_without_name_rejected:
  "trim (patientName (currentPatient st)) = [] \<Longrightarrow>
     storeCalls (handleSavePatient writeOk reply now st) = storeCalls st
     \<and> currentPatient (handleSavePatient writeOk reply now st) = currentPatient st
     \<and> savedNotes (handleSavePatient writeOk reply now st) = savedNotes st
     \<and> currentTranscript (handleSavePatient writeOk reply now st) = currentTranscript st
     \<and> toasts (handleSavePatient writeOk reply now st)
         = toasts st @ [\<lparr> title = ''Patient name required'',
                           description = ''Please enter the patient's name before saving.'',
                           destructive = True \<rparr>]"
  by (simp add: handleSavePatient_def showToast_def)

theorem save_without_name_rejected_witness:
  "storeCalls (handleSavePatient True (Select_data None) ''2025-09-28''
      ((initialIndex ''2025-09-27'')
         \<lparr>currentPatient := (emptyPatient ''2025-09-27'')\<lparr>patientName := ''   ''\<rparr>\<rparr>)) = []
   \<and> patientName (currentPatient
       (handleSavePatient True (Select_data None) ''2025-09-28''
          ((initialIndex ''2025-09-27'')
             \<lparr>currentPatient := (emptyPatient ''2025-09-27'')\<lparr>patientName := ''   ''\<rparr>\<rparr>)))
     = ''   ''"
proof -
  have a: "trim (patientName (currentPatient ((initialIndex ''2025-09-27'')
         \<lparr>currentPatient := (emptyPatient ''2025-09-27'')\<lparr>patientName := ''   ''\<rparr>\<rparr>))) = []"
    by (simp add: trim_def isWhiteSpace_def)
  show ?thesis
    using save_without_name_rejected [OF a, of True "Select_data None" "''2025-09-28''"]
    by (simp add: initialIndex_def)
qed

section \<open>Properties of the recorder\<close>

text \<open>
  Claim C4 says that a recognition stream that ends on its own while the session is
  recording is started again.  The handler \<^verbatim>\<open>onend\<close> reads the \<^verbatim>\<open>recordingState\<close> of
  the render in which \<^verbatim>\<open>startRecording\<close> was created, and the Start button is enabled
  only when that state is \<^verbatim>\<open>'idle'\<close>.  So after a start from the first state the
  session is recording with a listening stream; when the stream then ends, the
  session is still recording, the stream is not listening, no restart is pending and
  a timer has nothing to do.
\<close>

theorem restart_after_silence_missing:
  "recordingState (clickStart browserOk initialRecorder) = Recording
   \<and> recognitionRef (clickStart browserOk initialRecorder)
       = Some \<lparr>closureState = Idle, started = True\<rparr>
   \<and> recordingState (streamEnded (clickStart browserOk initialRecorder)) = Recording
   \<and> recognitionRef (streamEnded (clickStart browserOk initialRecorder))
       = Some \<lparr>closureState = Idle, started = False\<rparr>
   \<and> restartTimers (streamEnded (clickStart browserOk initialRecorder)) = []
   \<and> timerFires (streamEnded (clickStart browserOk initialRecorder))
       = streamEnded (clickStart browserOk initialRecorder)"
  by (simp add: clickStart_def startRecording_def browserOk_def initialRecorder_def
        streamEnded_def recognition_onend_def timerFires_def)

text \<open>
  At this input the Start button is enabled (the first state is idle and supported),
  so the click does reach \<^verbatim>\<open>startRecording\<close>.
\<close>

theorem restart_after_silence_missing_witness:
  "recordingState initialRecorder = Idle \<and> isSupported initialRecorder
   \<and> recordingState (streamEnded (clickStart browserOk initialRecorder)) = Recording
   \<and> restartTimers (streamEnded (clickStart browserOk initialRecorder)) = []"
  using restart_after_silence_missing by (simp add: initialRecorder_def)

text \<open>
  The same holds in general: a recognition object made by a click on Start has a
  closure with \<^verbatim>\<open>'idle'\<close>, one made by a resume has a closure with \<^verbatim>\<open>'paused'\<close>, and
  \<^verbatim>\<open>onend\<close> with such a closure changes nothing.
\<close>

lemma closure_of_start:
  "recognitionRef (clickStart env s) = Some r \<Longrightarrow> recognitionRef s \<noteq> Some r \<Longrightarrow>
     closureState r = Idle"
  by (auto simp add: clickStart_def startRecording_def Let_def split: if_splits)

lemma closure_of_resume:
  "recognitionRef (resumeRecording (recordingState s) env s) = Some r \<Longrightarrow>
     recognitionRef s \<noteq> Some r \<Longrightarrow> closureState r = Paused"
  by (auto simp add: resumeRecording_def startRecording_def Let_def split: if_splits)

lemma onend_without_recording_closure:
  "closure \<noteq> Recording \<Longrightarrow> recognition_onend closure s = s"
  by (simp add: recognition_onend_def)

text \<open>
  Claim C5: an operation outside its source states (start from a state other than
  idle, pause from a state other than recording, resume from a state other than
  paused, stop from idle) returns the state of the recorder as it was: recording
  state, accumulated and displayed transcript, and the calls made to the callbacks
  of the parent are all unchanged.  This holds in every state, hence after every
  sequence of operations.
\<close>

theorem illegal_operation_noop:
  "\<not> validFrom op (recordingState s) \<Longrightarrow> perform op given env s = s"
  by (cases op; cases "recordingState s")
     (simp_all add: clickStart_def clickStop_def pauseRecording_def resumeRecording_def)

theorem illegal_operation_noop_witness:
  "perform Stop True browserOk initialRecorder = initialRecorder
   \<and> perform Pause True browserOk initialRecorder = initialRecorder
   \<and> perform Resume True browserOk initialRecorder = initialRecorder
   \<and> perform Start True browserOk (initialRecorder\<lparr>recordingState := Paused\<rparr>)
       = initialRecorder\<lparr>recordingState := Paused\<rparr>"
proof -
  have a: "\<not> validFrom Stop (recordingState initialRecorder)"
    and b: "\<not> validFrom Pause (recordingState initialRecorder)"
    and c: "\<not> validFrom Resume (recordingState initialRecorder)"
    and d: "\<not> validFrom Start (recordingState (initialRecorder\<lparr>recordingState := Paused\<rparr>))"
    by (simp_all add: initialRecorder_def)
  show ?thesis
    using illegal_operation_noop [OF a] illegal_operation_noop [OF b]
      illegal_operation_noop [OF c] illegal_operation_noop [OF d]
    by simp
qed

text \<open>
  The guard of stop is the disabled button alone: the function \<^verbatim>\<open>stopRecording\<close>
  reports a completed recording in whatever state it is called.
\<close>

lemma stopRecording_reports:
  "onRecordingComplete (stopRecording s) = onRecordingComplete s @ [trim (fullTranscriptRef s)]
   \<and> recordingState (stopRecording s) = Idle"
  by (simp add: stopRecording_def)

section \<open>Properties of the heuristic parser\<close>

lemma startsWith_iff: "startsWith s k \<longleftrightarrow> (\<exists>v. s = k @ v)"
  by (induction s k rule: startsWith.induct) auto

lemma str_includes_contains: "str_includes s k \<longleftrightarrow> contains s k"
proof (induction s)
  case Nil
  then show ?case by (auto simp add: contains_def)
next
  case (Cons c cs)
  have "contains (c # cs) k \<longleftrightarrow> (\<exists>v. c # cs = k @ v) \<or> contains cs k"
  proof
    assume "contains (c # cs) k"
    then obtain u v where uv: "c # cs = u @ k @ v"
      by (auto simp add: contains_def)
    show "(\<exists>v. c # cs = k @ v) \<or> contains cs k"
    proof (cases u)
      case Nil
      with uv show ?thesis by auto
    next
      case (Cons a u')
      with uv have "cs = u' @ k @ v" by simp
      then show ?thesis by (auto simp add: contains_def)
    qed
  next
    assume "(\<exists>v. c # cs = k @ v) \<or> contains cs k"
    then show "contains (c # cs) k"
    proof
      assume "\<exists>v. c # cs = k @ v"
      then obtain v where "c # cs = [] @ k @ v" by auto
      then show ?thesis unfolding contains_def by blast
    next
      assume "contains cs k"
      then obtain u v where "cs = u @ k @ v"
        by (auto simp add: contains_def)
      then have "c # cs = (c # u) @ k @ v" by simp
      then show ?thesis unfolding contains_def by blast
    qed
  qed
  with Cons show ?case by (simp add: startsWith_iff)
qed

text \<open>
  Claim C7 says that the parser finds the name John Smith and the age 34 in the
  example sentence.  With the flag \<^verbatim>\<open>g\<close>, \<^verbatim>\<open>match\<close> returns the array of whole matches,
  so the index 1 is the second match and not the first capture group; the example
  has one match of the first name pattern and one of the second age pattern, and
  none of the others.  The parser returns neither name nor age; the symptoms are the
  sentence about headache and fever.
\<close>

theorem example_name_and_age_unset:
  "parseTranscriptForPatientInfo
     ''I am John Smith, 34 years old. I have a bad headache and fever.''
   = \<lparr> patientName_h = None, age_h = None, gender_h = None,
       symptoms_h = Some ''I have a bad headache and fever'',
       medicalHistory_h = None, diagnosis_h = None, treatmentPlan_h = None \<rparr>"
  by code_simp

lemma example_matches:
  "map (\<lambda>p. matchAll p ''I am John Smith, 34 years old. I have a bad headache and fever.'')
     (namePatterns @ agePatterns)
   = [[''I am John Smith''], [], [], [''34 years old'']]"
  by code_simp

text \<open>
  Claim C8: when the lower case transcript contains female, woman or she/her the
  gender is Female, also when a male cue is present; otherwise, when it contains
  male, man or he/him, the gender is Male; otherwise the gender is not set.
\<close>

theorem gender_heuristic:
  "gender_h (parseTranscriptForPatientInfo t) =
     (if contains (toLowerCase t) ''female'' \<or> contains (toLowerCase t) ''woman''
         \<or> contains (toLowerCase t) ''she/her'' then Some ''Female''
      else if contains (toLowerCase t) ''male'' \<or> contains (toLowerCase t) ''man''
         \<or> contains (toLowerCase t) ''he/him'' then Some ''Male''
      else None)"
  by (simp add: parseTranscriptForPatientInfo_def Let_def str_includes_contains)

theorem gender_heuristic_witness:
  "gender_h (parseTranscriptForPatientInfo ''The Woman is seen with a man.'') = Some ''Female''
   \<and> gender_h (parseTranscriptForPatientInfo ''Male patient, 40 years.'') = Some ''Male''
   \<and> gender_h (parseTranscriptForPatientInfo ''Patient reports a cough.'') = None"
proof -
  have a: "contains (toLowerCase ''The Woman is seen with a man.'') ''woman''"
    unfolding str_includes_contains [symmetric] by code_simp
  have b: "\<not> contains (toLowerCase ''Male patient, 40 years.'') ''female''"
    "\<not> contains (toLowerCase ''Male patient, 40 years.'') ''woman''"
    "\<not> contains (toLowerCase ''Male patient, 40 years.'') ''she/her''"
    "contains (toLowerCase ''Male patient, 40 years.'') ''male''"
    unfolding str_includes_contains [symmetric] by code_simp+
  have c: "\<not> contains (toLowerCase ''Patient reports a cough.'') ''female''"
    "\<not> contains (toLowerCase ''Patient reports a cough.'') ''woman''"
    "\<not> contains (toLowerCase ''Patient reports a cough.'') ''she/her''"
    "\<not> contains (toLowerCase ''Patient reports a cough.'') ''male''"
    "\<not> contains (toLowerCase ''Patient reports a cough.'') ''man''"
    "\<not> contains (toLowerCase ''Patient reports a cough.'') ''he/him''"
    unfolding str_includes_contains [symmetric] by code_simp+
  show ?thesis
    using gender_heuristic [of "''The Woman is seen with a man.''"]
      gender_heuristic [of "''Male patient, 40 years.''"]
      gender_heuristic [of "''Patient reports a cough.''"]
    by (simp only: a b c if_True if_False simp_thms)
qed

end
